theory Spec2Isabelle
  imports Complex_Main "HOL-Library.AList" "HOL-Library.Log_Nat"
begin

section \<open>JavaScript numbers\<close>

text \<open>
  The parser is TypeScript; its numbers are IEEE-754 binary64 values. A number is modelled
  by its exact rational value, or one of the three special values. The two zeros of
  binary64 are identified: the parser never divides by a variable and never prints a
  number itself, so it cannot tell them apart.

  \<open>round64\<close> rounds an exact rational to the nearest binary64 value, ties to even, as
  every arithmetic operation and every decimal literal does: 53 significant bits, exponents
  from \<open>-1022\<close> (below which the spacing stays \<open>2 ^ -1074\<close>) to \<open>1023\<close>, and overflow
  to an infinity.
\<close>

datatype jsnum = Fin rat | PosInf | NegInf | NaN

definition ilog2 :: "rat \<Rightarrow> int" where
  "ilog2 q =
     (let a = fst (quotient_of \<bar>q\<bar>); b = snd (quotient_of \<bar>q\<bar>); k = bitlen a - bitlen b
      in if power_int 2 k \<le> \<bar>q\<bar> then k else k - 1)"

definition roundHalfEven :: "rat \<Rightarrow> int" where
  "roundHalfEven t =
     (let f = \<lfloor>t\<rfloor>; d = t - of_int f
      in if d < 1 / 2 then f else if 1 / 2 < d then f + 1 else if even f then f else f + 1)"

definition round64 :: "rat \<Rightarrow> jsnum" where
  "round64 q =
     (if q = 0 then Fin 0
      else
        let e = max (ilog2 q) (- 1022);
            ulp = power_int 2 (e - 52);
            r = of_int (roundHalfEven (q / ulp)) * ulp
        in if 2 ^ 1024 \<le> r then PosInf else if r \<le> - (2 ^ 1024) then NegInf else Fin r)"

text \<open>Unary minus, \<open>*\<close> and \<open>/\<close> on numbers. A zero divisor is taken as \<open>+0\<close>.\<close>

fun js_neg :: "jsnum \<Rightarrow> jsnum" where
  "js_neg (Fin q) = Fin (- q)"
| "js_neg PosInf = NegInf"
| "js_neg NegInf = PosInf"
| "js_neg NaN = NaN"

fun js_sign :: "jsnum \<Rightarrow> int" where
  "js_sign (Fin q) = sgn (if q < 0 then - 1 else if q = 0 then 0 else 1)"
| "js_sign PosInf = 1"
| "js_sign NegInf = - 1"
| "js_sign NaN = 0"

definition js_inf :: "int \<Rightarrow> jsnum" where
  "js_inf s = (if s = 0 then NaN else if 0 < s then PosInf else NegInf)"

fun js_mul :: "jsnum \<Rightarrow> jsnum \<Rightarrow> jsnum" where
  "js_mul NaN _ = NaN"
| "js_mul _ NaN = NaN"
| "js_mul (Fin a) (Fin b) = round64 (a * b)"
| "js_mul x y = js_inf (js_sign x * js_sign y)"

fun js_div :: "jsnum \<Rightarrow> jsnum \<Rightarrow> jsnum" where
  "js_div NaN _ = NaN"
| "js_div _ NaN = NaN"
| "js_div (Fin a) (Fin b) = (if b = 0 then js_inf (js_sign (Fin a)) else round64 (a / b))"
| "js_div (Fin a) _ = Fin 0"
| "js_div x (Fin b) = js_inf (js_sign x * (if b < 0 then - 1 else 1))"
| "js_div _ _ = NaN"

definition isNaN :: "jsnum \<Rightarrow> bool" where
  "isNaN n = (n = NaN)"

section \<open>Strings to numbers\<close>

text \<open>
  \<open>Number(s)\<close> and \<open>parseFloat(s)\<close> on a string, after ECMAScript's StringToNumber and
  parseFloat: \<open>Number\<close> wants the whole trimmed string to be a numeric literal (decimal,
  \<open>Infinity\<close>, or a \<open>0x\<close>, \<open>0o\<close>, \<open>0b\<close> integer) and reads the empty string as 0;
  \<open>parseFloat\<close> reads the longest decimal prefix after leading white space. Strings are
  byte strings here, so only the ASCII white space characters are recognised.
\<close>

definition isDigit :: "char \<Rightarrow> bool" where
  "isDigit c = (c \<in> set ''0123456789'')"

definition isSpace :: "char \<Rightarrow> bool" where
  "isSpace c = (c \<in> set [CHR '' '', CHR 0x09, CHR 0x0A, CHR 0x0B, CHR 0x0C, CHR 0x0D])"

definition digitVal :: "char \<Rightarrow> nat" where
  "digitVal c =
     (if isDigit c then of_char c - 48
      else if c \<in> set ''abcdef'' then of_char c - 87
      else if c \<in> set ''ABCDEF'' then of_char c - 55
      else 0)"

definition digitsVal :: "nat \<Rightarrow> string \<Rightarrow> nat" where
  "digitsVal base ds = fold (\<lambda>c n. base * n + digitVal c) ds 0"

definition scanExponent :: "string \<Rightarrow> int \<times> string" where
  "scanExponent s =
     (case s of
        [] \<Rightarrow> (0, s)
      | c # r \<Rightarrow>
          if c = CHR ''e'' \<or> c = CHR ''E'' then
            (let neg = (r \<noteq> [] \<and> hd r = CHR ''-'');
                 r' = (if r \<noteq> [] \<and> (hd r = CHR ''-'' \<or> hd r = CHR ''+'') then tl r else r);
                 ds = takeWhile isDigit r'
             in if ds = [] then (0, s)
                else ((if neg then - int (digitsVal 10 ds) else int (digitsVal 10 ds)),
                      dropWhile isDigit r'))
          else (0, s))"

definition scanUnsigned :: "string \<Rightarrow> (rat \<times> string) option" where
  "scanUnsigned s =
     (let ip = takeWhile isDigit s;
          r1 = dropWhile isDigit s;
          dot = (r1 \<noteq> [] \<and> hd r1 = CHR ''.'');
          fp = (if dot then takeWhile isDigit (tl r1) else []);
          r2 = (if dot then dropWhile isDigit (tl r1) else r1)
      in if ip = [] \<and> fp = [] then None
         else
           (let ex = scanExponent r2
            in Some (of_nat (digitsVal 10 (ip @ fp)) * power_int 10 (fst ex - int (length fp)),
                     snd ex)))"

definition scanMagnitude :: "string \<Rightarrow> (jsnum \<times> string) option" where
  "scanMagnitude s =
     (if take 8 s = ''Infinity'' then Some (PosInf, drop 8 s)
      else map_option (\<lambda>(q, r). (round64 q, r)) (scanUnsigned s))"

definition scanDecimal :: "string \<Rightarrow> (jsnum \<times> string) option" where
  "scanDecimal s =
     (case s of
        [] \<Rightarrow> None
      | c # r \<Rightarrow>
          if c = CHR ''+'' then scanMagnitude r
          else if c = CHR ''-'' then map_option (\<lambda>(n, r'). (js_neg n, r')) (scanMagnitude r)
          else scanMagnitude s)"

definition parseFloatStr :: "string \<Rightarrow> jsnum" where
  "parseFloatStr s =
     (case scanDecimal (dropWhile isSpace s) of None \<Rightarrow> NaN | Some (n, _) \<Rightarrow> n)"

definition trim :: "string \<Rightarrow> string" where
  "trim s = rev (dropWhile isSpace (rev (dropWhile isSpace s)))"

definition radixOf :: "char \<Rightarrow> nat option" where
  "radixOf c =
     (if c = CHR ''x'' \<or> c = CHR ''X'' then Some 16
      else if c = CHR ''o'' \<or> c = CHR ''O'' then Some 8
      else if c = CHR ''b'' \<or> c = CHR ''B'' then Some 2
      else None)"

definition isRadixDigit :: "nat \<Rightarrow> char \<Rightarrow> bool" where
  "isRadixDigit base c =
     ((isDigit c \<or> c \<in> set ''abcdefABCDEF'') \<and> digitVal c < base)"

definition scanRadix :: "string \<Rightarrow> jsnum option" where
  "scanRadix s =
     (case s of
        z # c # ds \<Rightarrow>
          (case radixOf c of
             Some base \<Rightarrow>
               if z = CHR ''0'' then
                 Some (if ds \<noteq> [] \<and> list_all (isRadixDigit base) ds
                       then round64 (of_nat (digitsVal base ds)) else NaN)
               else None
           | None \<Rightarrow> None)
      | _ \<Rightarrow> None)"

definition NumberStr :: "string \<Rightarrow> jsnum" where
  "NumberStr s =
     (let t = trim s
      in if t = [] then Fin 0
         else
           (case scanRadix t of
              Some n \<Rightarrow> n
            | None \<Rightarrow>
                (case scanDecimal t of
                   Some (n, r) \<Rightarrow> if r = [] then n else NaN
                 | None \<Rightarrow> NaN)))"

section \<open>JavaScript values\<close>

text \<open>
  An object is the list of its own properties in insertion order, each name occurring
  once; a property that is absent reads as \<open>undefined\<close>. Inherited properties (the prototype chain) are not
  modelled, and neither is the special place of integer-like keys in the enumeration
  order. The parser's class body is strict-mode code, so writing a property of a
  primitive raises a \<open>TypeError\<close>. Writing a property of an array is outside the model
  (\<open>Unmodelled\<close>): the parser itself never does it.
\<close>

datatype jsval =
    JUndefined
  | JNull
  | JBool bool
  | JNum jsnum
  | JStr string
  | JArr "jsval list"
  | JObj "(string \<times> jsval) list"

datatype error = TypeError | ParseFailure string | Unmodelled

definition bindE :: "error + 'a \<Rightarrow> ('a \<Rightarrow> error + 'b) \<Rightarrow> error + 'b" where
  "bindE r f = (case r of Inl e \<Rightarrow> Inl e | Inr x \<Rightarrow> f x)"

fun foldE :: "('a \<Rightarrow> 's \<Rightarrow> error + 's) \<Rightarrow> 'a list \<Rightarrow> 's \<Rightarrow> error + 's" where
  "foldE f [] s = Inr s"
| "foldE f (x # xs) s = (case f x s of Inl e \<Rightarrow> Inl e | Inr s' \<Rightarrow> foldE f xs s')"

fun typeof :: "jsval \<Rightarrow> string" where
  "typeof JUndefined = ''undefined''"
| "typeof JNull = ''object''"
| "typeof (JBool _) = ''boolean''"
| "typeof (JNum _) = ''number''"
| "typeof (JStr _) = ''string''"
| "typeof (JArr _) = ''object''"
| "typeof (JObj _) = ''object''"

fun truthy :: "jsval \<Rightarrow> bool" where
  "truthy JUndefined = False"
| "truthy JNull = False"
| "truthy (JBool b) = b"
| "truthy (JNum n) = (n \<noteq> Fin 0 \<and> n \<noteq> NaN)"
| "truthy (JStr s) = (s \<noteq> [])"
| "truthy (JArr _) = True"
| "truthy (JObj _) = True"

text \<open>\<open>a || b\<close>\<close>

definition js_or :: "jsval \<Rightarrow> jsval \<Rightarrow> jsval" where
  "js_or a b = (if truthy a then a else b)"

definition nullish :: "jsval \<Rightarrow> bool" where
  "nullish v = (v = JUndefined \<or> v = JNull)"

text \<open>An array index as a property key: decimal digits with no leading zero.\<close>

definition indexOf :: "string \<Rightarrow> nat option" where
  "indexOf k =
     (if k \<noteq> [] \<and> list_all isDigit k \<and> (hd k \<noteq> CHR ''0'' \<or> length k = 1)
         \<and> digitsVal 10 k < 2 ^ 32 - 1
      then Some (digitsVal 10 k) else None)"

definition lookupProp :: "(string \<times> jsval) list \<Rightarrow> string \<Rightarrow> jsval" where
  "lookupProp kvs k = (case map_of kvs k of None \<Rightarrow> JUndefined | Some v \<Rightarrow> v)"

text \<open>\<open>v[k]\<close> where \<open>v\<close> is neither \<open>undefined\<close> nor \<open>null\<close>.\<close>

fun field :: "jsval \<Rightarrow> string \<Rightarrow> jsval" where
  "field (JObj kvs) k = lookupProp kvs k"
| "field (JArr xs) k =
     (if k = ''length'' then JNum (Fin (of_nat (length xs)))
      else (case indexOf k of
              Some i \<Rightarrow> if i < length xs then xs ! i else JUndefined
            | None \<Rightarrow> JUndefined))"
| "field (JStr s) k =
     (if k = ''length'' then JNum (Fin (of_nat (length s)))
      else (case indexOf k of
              Some i \<Rightarrow> if i < length s then JStr [s ! i] else JUndefined
            | None \<Rightarrow> JUndefined))"
| "field _ k = JUndefined"

text \<open>\<open>v[k]\<close> in general: reading a property of \<open>undefined\<close> or \<open>null\<close> raises.\<close>

definition getProp :: "jsval \<Rightarrow> string \<Rightarrow> error + jsval" where
  "getProp v k = (if nullish v then Inl TypeError else Inr (field v k))"

text \<open>\<open>v[k] = x\<close>, returning the updated \<open>v\<close>.\<close>

fun setProp :: "jsval \<Rightarrow> string \<Rightarrow> jsval \<Rightarrow> error + jsval" where
  "setProp (JObj kvs) k x = Inr (JObj (AList.update k x kvs))"
| "setProp (JArr xs) k x = Inl Unmodelled"
| "setProp _ k x = Inl TypeError"

text \<open>\<open>v?.[k]\<close>\<close>

definition optChain :: "jsval \<Rightarrow> string \<Rightarrow> jsval" where
  "optChain v k = (if nullish v then JUndefined else field v k)"

text \<open>
  \<open>Object.keys(v).length\<close> for a \<open>v\<close> that is neither \<open>undefined\<close> nor \<open>null\<close>.
\<close>

fun keyCount :: "jsval \<Rightarrow> nat" where
  "keyCount (JObj kvs) = length kvs"
| "keyCount (JArr xs) = length xs"
| "keyCount (JStr s) = length s"
| "keyCount _ = 0"

text \<open>
  \<open>Number(v)\<close> and \<open>parseFloat(v)\<close> on any value. \<open>parseFloat\<close> first turns its
  argument into a string; a number printed and read back is the same number. A plain
  object prints as \<open>[object Object]\<close> and an array as its elements joined by commas, so
  only the first element of an array can contribute digits.
\<close>

fun toNumber :: "jsval \<Rightarrow> jsnum" where
  "toNumber JUndefined = NaN"
| "toNumber JNull = Fin 0"
| "toNumber (JBool b) = (if b then Fin 1 else Fin 0)"
| "toNumber (JNum n) = n"
| "toNumber (JStr s) = NumberStr s"
| "toNumber (JObj _) = NaN"
| "toNumber (JArr []) = Fin 0"
| "toNumber (JArr [JUndefined]) = Fin 0"
| "toNumber (JArr [JNull]) = Fin 0"
| "toNumber (JArr [JBool _]) = NaN"
| "toNumber (JArr [JNum n]) = n"
| "toNumber (JArr [JStr s]) = NumberStr s"
| "toNumber (JArr [JObj _]) = NaN"
| "toNumber (JArr [JArr ys]) = toNumber (JArr ys)"
| "toNumber (JArr (x # y # zs)) = NaN"

fun parseFloat :: "jsval \<Rightarrow> jsnum" where
  "parseFloat (JNum n) = n"
| "parseFloat (JStr s) = parseFloatStr s"
| "parseFloat (JArr (x # xs)) = parseFloat x"
| "parseFloat _ = NaN"

section \<open>The data of the parser (types.ts)\<close>

text \<open>
  \<open>SetupFile\<close>: the header and the sections of a parsed \<open>.sto\<close> file. The header fields
  are declared strings, but hold whatever the INI table holds under the header keys, so
  they are values here. \<open>ParsedSetup\<close>, the structured setup, is read and written by
  dotted paths, so it is a value (an object) too.
\<close>

record SetupHeader =
  version :: jsval
  carIdentifier :: jsval
  trackIdentifier :: jsval
  name :: jsval
  timestamp :: jsval

record SetupFile =
  header :: SetupHeader
  sections :: "(string \<times> jsval) list"

record transformation =
  fromRaw :: "jsval \<Rightarrow> jsval"
  toRaw :: "jsval \<Rightarrow> jsval"

record CarMappingConfig =
  carId :: string
  carName :: string
  fieldMappings :: "(string \<times> (string \<times> string) list) list"
  valueTransformations :: "(string \<times> transformation) list option"

text \<open>\<open>mapping.valueTransformations?.[targetField]\<close>\<close>

definition transformationFor :: "CarMappingConfig \<Rightarrow> string \<Rightarrow> transformation option" where
  "transformationFor mapping targetField =
     (case valueTransformations mapping of None \<Rightarrow> None | Some ts \<Rightarrow> map_of ts targetField)"

section \<open>The car mappings (car-mappings/*.ts)\<close>

definition negParseFloat :: "jsval \<Rightarrow> jsval" where
  "negParseFloat v = JNum (js_neg (parseFloat v))"

definition negate :: "jsval \<Rightarrow> jsval" where
  "negate v = JNum (js_neg (toNumber v))"

definition parseFloatTimes1000 :: "jsval \<Rightarrow> jsval" where
  "parseFloatTimes1000 v = JNum (js_mul (parseFloat v) (Fin 1000))"

definition dividedBy1000 :: "jsval \<Rightarrow> jsval" where
  "dividedBy1000 v = JNum (js_div (toNumber v) (Fin 1000))"

definition signFlip :: transformation where
  "signFlip = \<lparr>fromRaw = negParseFloat, toRaw = negate\<rparr>"

definition rescale1000 :: transformation where
  "rescale1000 = \<lparr>fromRaw = parseFloatTimes1000, toRaw = dividedBy1000\<rparr>"

definition ferrari488GT3Mapping :: CarMappingConfig where
  "ferrari488GT3Mapping =
     \<lparr>carId = ''ferrari_488_gt3'',
      carName = ''Ferrari 488 GT3'',
      fieldMappings =
        [(''TIRE'',
          [(''tirePressures.frontLeft'', ''PRESSURE_LF''),
           (''tirePressures.frontRight'', ''PRESSURE_RF''),
           (''tirePressures.rearLeft'', ''PRESSURE_LR''),
           (''tirePressures.rearRight'', ''PRESSURE_RR'')]),
         (''SUSPENSION'',
          [(''suspension.front.springRate'', ''SPRING_RATE_LF''),
           (''suspension.front.rideHeight'', ''RIDE_HEIGHT_LF''),
           (''suspension.front.camber'', ''CAMBER_LF''),
           (''suspension.front.toe'', ''TOE_LF''),
           (''suspension.front.antiRollBar'', ''ARB_FRONT''),
           (''suspension.rear.springRate'', ''SPRING_RATE_LR''),
           (''suspension.rear.rideHeight'', ''RIDE_HEIGHT_LR''),
           (''suspension.rear.camber'', ''CAMBER_LR''),
           (''suspension.rear.toe'', ''TOE_LR''),
           (''suspension.rear.antiRollBar'', ''ARB_REAR''),
           (''dampers.front.bump'', ''BUMP_LF''),
           (''dampers.front.rebound'', ''REBOUND_LF''),
           (''dampers.rear.bump'', ''BUMP_LR''),
           (''dampers.rear.rebound'', ''REBOUND_LR'')]),
         (''AERO'', [(''aero.rearWing'', ''WING_REAR'')]),
         (''BRAKE'', [(''brakeBias'', ''BIAS'')]),
         (''DIFFERENTIAL'',
          [(''differential.preload'', ''PRELOAD''),
           (''differential.powerRamp'', ''POWER_RAMP''),
           (''differential.coastRamp'', ''COAST_RAMP'')])],
      valueTransformations =
        Some [(''suspension.front.camber'', signFlip),
              (''suspension.rear.camber'', signFlip)]\<rparr>"

definition porsche911GT3RMapping :: CarMappingConfig where
  "porsche911GT3RMapping =
     \<lparr>carId = ''porsche_911_gt3r'',
      carName = ''Porsche 911 GT3 R'',
      fieldMappings =
        [(''TIRE'',
          [(''tirePressures.frontLeft'', ''LEFT_FRONT''),
           (''tirePressures.frontRight'', ''RIGHT_FRONT''),
           (''tirePressures.rearLeft'', ''LEFT_REAR''),
           (''tirePressures.rearRight'', ''RIGHT_REAR'')]),
         (''SUSPENSION'',
          [(''suspension.front.springRate'', ''FRONT_SPRING_RATE''),
           (''suspension.front.rideHeight'', ''FRONT_RIDE_HEIGHT''),
           (''suspension.front.camber'', ''FRONT_CAMBER''),
           (''suspension.front.toe'', ''FRONT_TOE''),
           (''suspension.front.antiRollBar'', ''FRONT_ARB''),
           (''suspension.rear.springRate'', ''REAR_SPRING_RATE''),
           (''suspension.rear.rideHeight'', ''REAR_RIDE_HEIGHT''),
           (''suspension.rear.camber'', ''REAR_CAMBER''),
           (''suspension.rear.toe'', ''REAR_TOE''),
           (''suspension.rear.antiRollBar'', ''REAR_ARB''),
           (''dampers.front.bump'', ''FRONT_BUMP''),
           (''dampers.front.rebound'', ''FRONT_REBOUND''),
           (''dampers.rear.bump'', ''REAR_BUMP''),
           (''dampers.rear.rebound'', ''REAR_REBOUND'')]),
         (''AERO'', [(''aero.rearWing'', ''REAR_WING'')]),
         (''BRAKE'', [(''brakeBias'', ''BRAKE_BIAS'')]),
         (''DIFFERENTIAL'',
          [(''differential.preload'', ''DIFF_PRELOAD''),
           (''differential.powerRamp'', ''DIFF_ENTRY''),
           (''differential.coastRamp'', ''DIFF_EXIT'')])],
      valueTransformations =
        Some [(''suspension.front.springRate'', rescale1000),
              (''suspension.rear.springRate'', rescale1000),
              (''suspension.front.camber'', signFlip),
              (''suspension.rear.camber'', signFlip)]\<rparr>"

section \<open>The parser (parser.ts)\<close>

text \<open>
  The state of a \<open>SetupParser\<close> is its table of car mappings, keyed by car identifier.
  A \<open>Map\<close> looked up with a key that is not a string finds nothing, since every key
  stored is a string.
\<close>

record SetupParser =
  carMappings :: "string \<rightharpoonup> CarMappingConfig"

definition newSetupParser :: "CarMappingConfig list \<Rightarrow> SetupParser" where
  "newSetupParser carMappingsArray =
     \<lparr>carMappings = fold (\<lambda>mapping m. m(carId mapping \<mapsto> mapping)) carMappingsArray Map.empty\<rparr>"

text \<open>
  \<open>registerCarMapping\<close> has no \<open>throw\<close> and calls nothing that raises; its result is
  given as a sum all the same, so that its success can be stated.
\<close>

definition registerCarMapping :: "SetupParser \<Rightarrow> CarMappingConfig \<Rightarrow> error + SetupParser" where
  "registerCarMapping this mapping =
     Inr (this\<lparr>carMappings := (carMappings this)(carId mapping \<mapsto> mapping)\<rparr>)"

definition getCarMapping :: "SetupParser \<Rightarrow> jsval \<Rightarrow> CarMappingConfig option" where
  "getCarMapping this key = (case key of JStr s \<Rightarrow> carMappings this s | _ \<Rightarrow> None)"

text \<open>
  \<open>parseIniString\<close>. The tokenizer \<open>ini.parse\<close> is the npm package \<open>ini\<close>, not code of
  this repository: it is a parameter, returning the parsed table or the message of the
  error it throws. So is the clock (\<open>new Date().toISOString()\<close>), as the string \<open>now\<close>.
  The loop copies the remaining entries that are objects, in order.
\<close>

definition parseIniString ::
  "(string \<Rightarrow> string + (string \<times> jsval) list) \<Rightarrow> string \<Rightarrow> string \<Rightarrow> error + SetupFile" where
  "parseIniString ini_parse now content =
     (case ini_parse content of
        Inl message \<Rightarrow> Inl (ParseFailure (''Failed to parse .sto file: '' @ message))
      | Inr parsed \<Rightarrow>
          Inr \<lparr>header =
                 \<lparr>version = js_or (lookupProp parsed ''VERSION'') (JStr ''1.0''),
                  carIdentifier = js_or (lookupProp parsed ''CAR'') (JStr []),
                  trackIdentifier = js_or (lookupProp parsed ''TRACK'') (JStr []),
                  name = js_or (optChain (lookupProp parsed ''SETUPS'') ''ACTIVE'')
                           (JStr ''Unnamed Setup''),
                  timestamp = js_or (lookupProp parsed ''TIMESTAMP'') (JStr now)\<rparr>,
               sections =
                 filter (\<lambda>(key, v). typeof v = ''object'')
                   (AList.delete ''TIMESTAMP'' (AList.delete ''TRACK''
                     (AList.delete ''CAR'' (AList.delete ''VERSION'' parsed))))\<rparr>)"

text \<open>\<open>path.split('.')\<close>: never empty.\<close>

fun splitDot :: "string \<Rightarrow> string list" where
  "splitDot [] = [[]]"
| "splitDot (c # cs) =
     (if c = CHR ''.'' then [] # splitDot cs
      else (case splitDot cs of [] \<Rightarrow> [[c]] | p # ps \<Rightarrow> (c # p) # ps))"

text \<open>
  \<open>setNestedProperty\<close> walks and mutates the object in place. Here \<open>setPath current part
  rest value\<close> is the loop from a current object on, \<open>part\<close> being the next segment and
  \<open>rest\<close> those after it, and it returns the updated current object: the parent then
  holds the updated child. When the loop raises, the call raises.
\<close>

fun setPath :: "jsval \<Rightarrow> string \<Rightarrow> string list \<Rightarrow> jsval \<Rightarrow> error + jsval" where
  "setPath current part [] v = setProp current part v"
| "setPath current part (next # rest) v =
     (case getProp current part of
        Inl e \<Rightarrow> Inl e
      | Inr child \<Rightarrow>
          if child = JUndefined then
            (case setProp current part (JObj []) of
               Inl e \<Rightarrow> Inl e
             | Inr current' \<Rightarrow>
                 (case setPath (JObj []) next rest v of
                    Inl e \<Rightarrow> Inl e
                  | Inr child' \<Rightarrow> setProp current' part child'))
          else
            (case setPath child next rest v of
               Inl e \<Rightarrow> Inl e
             | Inr child' \<Rightarrow> setProp current part child'))"

definition setNestedProperty :: "jsval \<Rightarrow> string \<Rightarrow> jsval \<Rightarrow> error + jsval" where
  "setNestedProperty obj path v =
     (case splitDot path of
        [] \<Rightarrow> setProp obj ''undefined'' v
      | part # rest \<Rightarrow> setPath obj part rest v)"

fun getPath :: "jsval \<Rightarrow> string list \<Rightarrow> jsval" where
  "getPath current [] = current"
| "getPath current (part # rest) =
     (if current = JUndefined \<or> current = JNull then JUndefined
      else getPath (field current part) rest)"

definition getNestedProperty :: "jsval \<Rightarrow> string \<Rightarrow> jsval" where
  "getNestedProperty obj path = getPath obj (splitDot path)"

fun parseNumber :: "jsval \<Rightarrow> jsnum" where
  "parseNumber JUndefined = Fin 0"
| "parseNumber JNull = Fin 0"
| "parseNumber (JNum n) = n"
| "parseNumber (JStr s) = (if isNaN (parseFloatStr s) then Fin 0 else parseFloatStr s)"
| "parseNumber _ = Fin 0"

text \<open>
  \<open>applyCarMapping\<close>: the value an entry stores, the body of the inner loop for one
  entry of a section mapping, the inner loop, and the outer loop over the sections of the
  mapping.
\<close>

definition decodeValue :: "CarMappingConfig \<Rightarrow> string \<Rightarrow> jsval \<Rightarrow> jsval" where
  "decodeValue mapping targetField rawValue =
     (case transformationFor mapping targetField of
        Some transformation \<Rightarrow> fromRaw transformation rawValue
      | None \<Rightarrow>
          if typeof rawValue = ''string'' \<and> \<not> isNaN (toNumber rawValue)
          then JNum (toNumber rawValue) else rawValue)"

definition applyField ::
  "CarMappingConfig \<Rightarrow> jsval \<Rightarrow> string \<times> string \<Rightarrow> jsval \<Rightarrow> error + jsval" where
  "applyField mapping rawSection entry setup =
     (let targetField = fst entry; sourceField = snd entry; rawValue = field rawSection sourceField
      in if rawValue = JUndefined then Inr setup
         else setNestedProperty setup targetField (decodeValue mapping targetField rawValue))"

definition applySection ::
  "CarMappingConfig \<Rightarrow> SetupFile \<Rightarrow> string \<times> (string \<times> string) list \<Rightarrow> jsval \<Rightarrow> error + jsval" where
  "applySection mapping rawSetup sec setup =
     (let sectionName = fst sec; sectionMapping = snd sec;
          rawSection = lookupProp (sections rawSetup) sectionName
      in if \<not> truthy rawSection then Inr setup
         else foldE (applyField mapping rawSection) sectionMapping setup)"

definition applyCarMapping :: "jsval \<Rightarrow> SetupFile \<Rightarrow> CarMappingConfig \<Rightarrow> error + jsval" where
  "applyCarMapping setup rawSetup mapping =
     foldE (applySection mapping rawSetup) (fieldMappings mapping) setup"

text \<open>
  \<open>applyGenericMapping\<close>. Every right-hand side reads the raw setup only, so the
  function is the list of its assignments, in the order of the source, run on the
  setup. \<open>assignPath\<close> is a member assignment \<open>setup.a.b = v\<close>: it creates nothing on the
  way and raises where a member of \<open>undefined\<close> is taken.
\<close>

fun assignPath :: "jsval \<Rightarrow> string \<Rightarrow> string list \<Rightarrow> jsval \<Rightarrow> error + jsval" where
  "assignPath current part [] v = setProp current part v"
| "assignPath current part (next # rest) v =
     (case getProp current part of
        Inl e \<Rightarrow> Inl e
      | Inr child \<Rightarrow>
          (case assignPath child next rest v of
             Inl e \<Rightarrow> Inl e
           | Inr child' \<Rightarrow> setProp current part child'))"

definition assign :: "string list \<times> jsval \<Rightarrow> jsval \<Rightarrow> error + jsval" where
  "assign a setup =
     (case fst a of [] \<Rightarrow> Inr setup | part # rest \<Rightarrow> assignPath setup part rest (snd a))"

text \<open>\<open>rawSetup.sections[sectionName] || {}\<close>\<close>

definition sectionOrEmpty :: "SetupFile \<Rightarrow> string \<Rightarrow> jsval" where
  "sectionOrEmpty rawSetup sectionName =
     js_or (lookupProp (sections rawSetup) sectionName) (JObj [])"

text \<open>\<open>this.parseNumber(section[a] || section[b])\<close>\<close>

definition alias2 :: "jsval \<Rightarrow> string \<Rightarrow> string \<Rightarrow> jsval" where
  "alias2 section a b = JNum (parseNumber (js_or (field section a) (field section b)))"

text \<open>\<open>this.parseNumber(section[a] || section[b] || d)\<close>\<close>

definition alias2d :: "jsval \<Rightarrow> string \<Rightarrow> string \<Rightarrow> jsval \<Rightarrow> jsval" where
  "alias2d section a b d =
     JNum (parseNumber (js_or (js_or (field section a) (field section b)) d))"

fun decimal :: "nat \<Rightarrow> string" where
  "decimal n =
     (if n < 10 then [char_of (48 + n)] else decimal (n div 10) @ [char_of (48 + n mod 10)])"

definition gearKey :: "nat \<Rightarrow> string" where
  "gearKey i = ''GEAR_'' @ decimal i"

definition gearRatiosOf :: "jsval \<Rightarrow> jsval list" where
  "gearRatiosOf gearSection =
     concat (map (\<lambda>i. if field gearSection (gearKey i) \<noteq> JUndefined
                        then [JNum (parseNumber (field gearSection (gearKey i)))] else [])
                 [1 ..< 9])"

definition knownSections :: "string list" where
  "knownSections = [''TIRE'', ''SUSPENSION'', ''DAMPER'', ''AERO'', ''BRAKE'', ''DIFFERENTIAL'', ''GEARS'']"

definition genericAssignments :: "SetupFile \<Rightarrow> (string list \<times> jsval) list" where
  "genericAssignments rawSetup =
     (let tirePressureSection = sectionOrEmpty rawSetup ''TIRE'';
          suspensionSection = sectionOrEmpty rawSetup ''SUSPENSION'';
          damperSection = js_or (lookupProp (sections rawSetup) ''DAMPER'') suspensionSection;
          aeroSection = sectionOrEmpty rawSetup ''AERO'';
          brakeSection = sectionOrEmpty rawSetup ''BRAKE'';
          diffSection = sectionOrEmpty rawSetup ''DIFFERENTIAL'';
          gearSection = sectionOrEmpty rawSetup ''GEARS'';
          gearRatios = gearRatiosOf gearSection
      in
        [([''tirePressures'', ''frontLeft''], alias2 tirePressureSection ''LEFT_FRONT'' ''PRESSURE_LF''),
         ([''tirePressures'', ''frontRight''], alias2 tirePressureSection ''RIGHT_FRONT'' ''PRESSURE_RF''),
         ([''tirePressures'', ''rearLeft''], alias2 tirePressureSection ''LEFT_REAR'' ''PRESSURE_LR''),
         ([''tirePressures'', ''rearRight''], alias2 tirePressureSection ''RIGHT_REAR'' ''PRESSURE_RR''),
         ([''suspension'', ''front'', ''springRate''],
            alias2 suspensionSection ''SPRING_RATE_LF'' ''FRONT_SPRING_RATE''),
         ([''suspension'', ''front'', ''rideHeight''],
            alias2 suspensionSection ''RIDE_HEIGHT_LF'' ''FRONT_RIDE_HEIGHT''),
         ([''suspension'', ''front'', ''camber''], alias2 suspensionSection ''CAMBER_LF'' ''FRONT_CAMBER''),
         ([''suspension'', ''front'', ''toe''], alias2 suspensionSection ''TOE_IN_LF'' ''FRONT_TOE''),
         ([''suspension'', ''front'', ''antiRollBar''],
            alias2 suspensionSection ''FRONT_ANTI_ROLL_BAR'' ''ARB_FRONT''),
         ([''suspension'', ''rear'', ''springRate''],
            alias2 suspensionSection ''SPRING_RATE_LR'' ''REAR_SPRING_RATE''),
         ([''suspension'', ''rear'', ''rideHeight''],
            alias2 suspensionSection ''RIDE_HEIGHT_LR'' ''REAR_RIDE_HEIGHT''),
         ([''suspension'', ''rear'', ''camber''], alias2 suspensionSection ''CAMBER_LR'' ''REAR_CAMBER''),
         ([''suspension'', ''rear'', ''toe''], alias2 suspensionSection ''TOE_IN_LR'' ''REAR_TOE''),
         ([''suspension'', ''rear'', ''antiRollBar''],
            alias2 suspensionSection ''REAR_ANTI_ROLL_BAR'' ''ARB_REAR''),
         ([''dampers'', ''front'', ''bump''], alias2 damperSection ''BUMP_LF'' ''FRONT_BUMP''),
         ([''dampers'', ''front'', ''rebound''], alias2 damperSection ''REBOUND_LF'' ''FRONT_REBOUND''),
         ([''dampers'', ''rear'', ''bump''], alias2 damperSection ''BUMP_LR'' ''REAR_BUMP''),
         ([''dampers'', ''rear'', ''rebound''], alias2 damperSection ''REBOUND_LR'' ''REAR_REBOUND''),
         ([''aero'', ''frontWing''], alias2 aeroSection ''FRONT_WING'' ''WING_FRONT''),
         ([''aero'', ''rearWing''], alias2 aeroSection ''REAR_WING'' ''WING_REAR''),
         ([''brakeBias''], alias2d brakeSection ''BIAS'' ''BRAKE_BIAS'' (JNum (Fin 50)))]
        @ (if 0 < keyCount diffSection
           then [([''differential''],
                  JObj [(''preload'', alias2d diffSection ''PRELOAD'' ''DIFF_PRELOAD'' (JNum (Fin 0))),
                        (''powerRamp'', alias2d diffSection ''POWER_RAMP'' ''DIFF_POWER'' (JNum (Fin 0))),
                        (''coastRamp'', alias2d diffSection ''COAST_RAMP'' ''DIFF_COAST'' (JNum (Fin 0)))])]
           else [])
        @ (if 0 < length gearRatios then [([''gearRatios''], JArr gearRatios)] else [])
        @ [([''additionalSettings''], JObj [])]
        @ map (\<lambda>(sectionName, section). ([''additionalSettings'', sectionName], section))
            (filter (\<lambda>(sectionName, section). sectionName \<notin> set knownSections) (sections rawSetup)))"

definition applyGenericMapping :: "jsval \<Rightarrow> SetupFile \<Rightarrow> error + jsval" where
  "applyGenericMapping setup rawSetup = foldE assign (genericAssignments rawSetup) setup"

text \<open>\<open>convertToStructured\<close>: the setup with its default values, then one of the two mappings.\<close>

definition initialSetup :: "string \<Rightarrow> SetupFile \<Rightarrow> jsval" where
  "initialSetup now rawSetup =
     JObj
      [(''carId'', carIdentifier (header rawSetup)),
       (''trackId'', trackIdentifier (header rawSetup)),
       (''name'', name (header rawSetup)),
       (''suspension'',
          JObj [(''front'',
                   JObj [(''springRate'', JNum (Fin 0)), (''rideHeight'', JNum (Fin 0)),
                         (''camber'', JNum (Fin 0)), (''toe'', JNum (Fin 0)),
                         (''antiRollBar'', JNum (Fin 0))]),
                (''rear'',
                   JObj [(''springRate'', JNum (Fin 0)), (''rideHeight'', JNum (Fin 0)),
                         (''camber'', JNum (Fin 0)), (''toe'', JNum (Fin 0)),
                         (''antiRollBar'', JNum (Fin 0))])]),
       (''dampers'',
          JObj [(''front'', JObj [(''bump'', JNum (Fin 0)), (''rebound'', JNum (Fin 0))]),
                (''rear'', JObj [(''bump'', JNum (Fin 0)), (''rebound'', JNum (Fin 0))])]),
       (''tirePressures'',
          JObj [(''frontLeft'', JNum (Fin 0)), (''frontRight'', JNum (Fin 0)),
                (''rearLeft'', JNum (Fin 0)), (''rearRight'', JNum (Fin 0))]),
       (''aero'', JObj []),
       (''brakeBias'', JNum (Fin 50)),
       (''metadata'',
          JObj [(''created'', js_or (timestamp (header rawSetup)) (JStr now)),
                (''modified'', js_or (timestamp (header rawSetup)) (JStr now)),
                (''version'', version (header rawSetup))])]"

definition convertToStructured :: "SetupParser \<Rightarrow> string \<Rightarrow> SetupFile \<Rightarrow> error + jsval" where
  "convertToStructured this now rawSetup =
     (case getCarMapping this (carIdentifier (header rawSetup)) of
        Some carMapping \<Rightarrow> applyCarMapping (initialSetup now rawSetup) rawSetup carMapping
      | None \<Rightarrow> applyGenericMapping (initialSetup now rawSetup) rawSetup)"

definition parseString ::
  "SetupParser \<Rightarrow> (string \<Rightarrow> string + (string \<times> jsval) list) \<Rightarrow> string \<Rightarrow> string \<Rightarrow> error + jsval" where
  "parseString this ini_parse now content =
     bindE (parseIniString ini_parse now content) (convertToStructured this now)"

text \<open>
  \<open>convertToSto\<close> builds the raw table and hands it to \<open>ini.stringify\<close>, which is a
  parameter like \<open>ini.parse\<close>. \<open>convertToStoTable\<close> is the table it hands over.
\<close>

definition encodeValue :: "CarMappingConfig \<Rightarrow> string \<Rightarrow> jsval \<Rightarrow> jsval" where
  "encodeValue mapping targetField v =
     (case transformationFor mapping targetField of
        Some transformation \<Rightarrow> toRaw transformation v
      | None \<Rightarrow> v)"

definition reverseField ::
  "CarMappingConfig \<Rightarrow> jsval \<Rightarrow> string \<Rightarrow> string \<times> string \<Rightarrow> jsval \<Rightarrow> error + jsval" where
  "reverseField mapping setup sectionName entry rawSetup =
     (let targetField = fst entry; sourceField = snd entry;
          v = getNestedProperty setup targetField
      in if v = JUndefined then Inr rawSetup
         else assignPath rawSetup sectionName [sourceField] (encodeValue mapping targetField v))"

definition reverseSection ::
  "CarMappingConfig \<Rightarrow> jsval \<Rightarrow> string \<times> (string \<times> string) list \<Rightarrow> jsval \<Rightarrow> error + jsval" where
  "reverseSection mapping setup sec rawSetup =
     (let sectionName = fst sec; sectionMapping = snd sec
      in bindE (if \<not> truthy (field rawSetup sectionName)
                then setProp rawSetup sectionName (JObj []) else Inr rawSetup)
           (foldE (reverseField mapping setup sectionName) sectionMapping))"

definition applyCarMappingReverse :: "jsval \<Rightarrow> jsval \<Rightarrow> CarMappingConfig \<Rightarrow> error + jsval" where
  "applyCarMappingReverse setup rawSetup mapping =
     foldE (reverseSection mapping setup) (fieldMappings mapping) rawSetup"

text \<open>A member chain \<open>v.a.b\<close>, and the own enumerable properties of a value in order.\<close>

fun readPath :: "jsval \<Rightarrow> string list \<Rightarrow> error + jsval" where
  "readPath v [] = Inr v"
| "readPath v (part # rest) =
     (case getProp v part of Inl e \<Rightarrow> Inl e | Inr child \<Rightarrow> readPath child rest)"

fun ownEntries :: "jsval \<Rightarrow> (string \<times> jsval) list" where
  "ownEntries (JObj kvs) = kvs"
| "ownEntries (JArr xs) = zip (map decimal [0 ..< length xs]) xs"
| "ownEntries (JStr s) = zip (map decimal [0 ..< length s]) (map (\<lambda>c. JStr [c]) s)"
| "ownEntries _ = []"

text \<open>\<open>rawSetup.A.B = setup.x.y\<close>, with and without the test \<open>setup.x.y !== undefined\<close>.\<close>

definition copyField :: "jsval \<Rightarrow> string list \<times> string list \<Rightarrow> jsval \<Rightarrow> error + jsval" where
  "copyField setup c rawSetup = bindE (readPath setup (snd c)) (\<lambda>v. assign (fst c, v) rawSetup)"

definition copyDefined :: "jsval \<Rightarrow> string list \<times> string list \<Rightarrow> jsval \<Rightarrow> error + jsval" where
  "copyDefined setup c rawSetup =
     bindE (readPath setup (snd c))
       (\<lambda>v. if v \<noteq> JUndefined then assign (fst c, v) rawSetup else Inr rawSetup)"

definition reverseDifferential :: "jsval \<Rightarrow> jsval \<Rightarrow> error + jsval" where
  "reverseDifferential setup rawSetup =
     (if truthy (field setup ''differential'') then
        bindE (assign ([''DIFFERENTIAL''],
                       JObj [(''PRELOAD'', field (field setup ''differential'') ''preload'')]) rawSetup)
          (foldE (copyDefined setup)
             [([''DIFFERENTIAL'', ''POWER_RAMP''], [''differential'', ''powerRamp'']),
              ([''DIFFERENTIAL'', ''COAST_RAMP''], [''differential'', ''coastRamp''])])
      else Inr rawSetup)"

text \<open>
  The gear loop runs over \<open>setup.gearRatios.length\<close>: the elements of an array, the
  characters of a string. An object with a \<open>length\<close> of its own is outside the model.
\<close>

definition reverseGears :: "jsval \<Rightarrow> jsval \<Rightarrow> error + jsval" where
  "reverseGears setup rawSetup =
     (let gearRatios = field setup ''gearRatios''
      in case gearRatios of
           JObj kvs \<Rightarrow> if lookupProp kvs ''length'' = JUndefined then Inr rawSetup else Inl Unmodelled
         | _ \<Rightarrow>
             if truthy gearRatios \<and> 0 < keyCount gearRatios then
               bindE (assign ([''GEARS''], JObj []) rawSetup)
                 (foldE (\<lambda>i. assign ([''GEARS'', gearKey (i + 1)], snd (ownEntries gearRatios ! i)))
                    [0 ..< keyCount gearRatios])
             else Inr rawSetup)"

definition reverseAdditional :: "jsval \<Rightarrow> jsval \<Rightarrow> error + jsval" where
  "reverseAdditional setup rawSetup =
     (if truthy (field setup ''additionalSettings'') then
        foldE (\<lambda>(sectionName, section). assign ([sectionName], section))
          (ownEntries (field setup ''additionalSettings'')) rawSetup
      else Inr rawSetup)"

definition applyGenericMappingReverse :: "jsval \<Rightarrow> jsval \<Rightarrow> error + jsval" where
  "applyGenericMappingReverse setup rawSetup =
     bindE (foldE assign
              [([''TIRE''], JObj []), ([''SUSPENSION''], JObj []),
               ([''AERO''], JObj []), ([''BRAKE''], JObj [])] rawSetup)
    (\<lambda>r1. bindE (foldE (copyField setup)
              [([''TIRE'', ''LEFT_FRONT''], [''tirePressures'', ''frontLeft'']),
               ([''TIRE'', ''RIGHT_FRONT''], [''tirePressures'', ''frontRight'']),
               ([''TIRE'', ''LEFT_REAR''], [''tirePressures'', ''rearLeft'']),
               ([''TIRE'', ''RIGHT_REAR''], [''tirePressures'', ''rearRight'']),
               ([''SUSPENSION'', ''SPRING_RATE_LF''], [''suspension'', ''front'', ''springRate'']),
               ([''SUSPENSION'', ''RIDE_HEIGHT_LF''], [''suspension'', ''front'', ''rideHeight'']),
               ([''SUSPENSION'', ''CAMBER_LF''], [''suspension'', ''front'', ''camber'']),
               ([''SUSPENSION'', ''TOE_IN_LF''], [''suspension'', ''front'', ''toe'']),
               ([''SUSPENSION'', ''FRONT_ANTI_ROLL_BAR''], [''suspension'', ''front'', ''antiRollBar'']),
               ([''SUSPENSION'', ''SPRING_RATE_LR''], [''suspension'', ''rear'', ''springRate'']),
               ([''SUSPENSION'', ''RIDE_HEIGHT_LR''], [''suspension'', ''rear'', ''rideHeight'']),
               ([''SUSPENSION'', ''CAMBER_LR''], [''suspension'', ''rear'', ''camber'']),
               ([''SUSPENSION'', ''TOE_IN_LR''], [''suspension'', ''rear'', ''toe'']),
               ([''SUSPENSION'', ''REAR_ANTI_ROLL_BAR''], [''suspension'', ''rear'', ''antiRollBar'']),
               ([''SUSPENSION'', ''BUMP_LF''], [''dampers'', ''front'', ''bump'']),
               ([''SUSPENSION'', ''REBOUND_LF''], [''dampers'', ''front'', ''rebound'']),
               ([''SUSPENSION'', ''BUMP_LR''], [''dampers'', ''rear'', ''bump'']),
               ([''SUSPENSION'', ''REBOUND_LR''], [''dampers'', ''rear'', ''rebound''])] r1)
    (\<lambda>r2. bindE (foldE (copyDefined setup)
              [([''AERO'', ''FRONT_WING''], [''aero'', ''frontWing'']),
               ([''AERO'', ''REAR_WING''], [''aero'', ''rearWing''])] r2)
    (\<lambda>r3. bindE (copyField setup ([''BRAKE'', ''BIAS''], [''brakeBias'']) r3)
    (\<lambda>r4. bindE (reverseDifferential setup r4)
    (\<lambda>r5. bindE (reverseGears setup r5) (reverseAdditional setup))))))"

definition convertToStoTable :: "SetupParser \<Rightarrow> string \<Rightarrow> jsval \<Rightarrow> error + jsval" where
  "convertToStoTable this now setup =
     (if nullish setup then Inl TypeError
      else
        (let rawSetup =
               JObj [(''VERSION'', js_or (optChain (field setup ''metadata'') ''version'') (JStr ''1.0'')),
                     (''CAR'', field setup ''carId''),
                     (''TRACK'', field setup ''trackId''),
                     (''TIMESTAMP'', js_or (optChain (field setup ''metadata'') ''modified'') (JStr now)),
                     (''SETUPS'', JObj [(''ACTIVE'', field setup ''name'')])]
         in case getCarMapping this (field setup ''carId'') of
              Some carMapping \<Rightarrow> applyCarMappingReverse setup rawSetup carMapping
            | None \<Rightarrow> applyGenericMappingReverse setup rawSetup))"

definition convertToSto ::
  "SetupParser \<Rightarrow> (jsval \<Rightarrow> string) \<Rightarrow> string \<Rightarrow> jsval \<Rightarrow> error + string" where
  "convertToSto this ini_stringify now setup =
     bindE (convertToStoTable this now setup) (\<lambda>rawSetup. Inr (ini_stringify rawSetup))"

text \<open>\<open>createDefaultParser\<close> (index.ts)\<close>

definition createDefaultParser :: SetupParser where
  "createDefaultParser = newSetupParser [ferrari488GT3Mapping, porsche911GT3RMapping]"

section \<open>Notions used to state the properties\<close>

text \<open>
  These are not functions of the parser: they are the conditions and the closed forms that
  the statements below are phrased with.
\<close>

fun isObj :: "jsval \<Rightarrow> bool" where
  "isObj (JObj _) = True"
| "isObj _ = False"




fun clearPath :: "jsval \<Rightarrow> string \<Rightarrow> string list \<Rightarrow> bool" where
  "clearPath current part [] = isObj current"
| "clearPath current part (next # rest) =
     (isObj current
      \<and> (field current part = JUndefined \<or> clearPath (field current part) next rest))"

text \<open>
  Two paths diverge when they differ at a position both have: neither is a prefix of the
  other, so writing one leaves what is read at the other.
\<close>

fun diverge :: "string list \<Rightarrow> string list \<Rightarrow> bool" where
  "diverge (x # xs) (y # ys) = (x \<noteq> y \<or> diverge xs ys)"
| "diverge _ _ = False"



definition pathClear :: "jsval \<Rightarrow> string \<Rightarrow> bool" where
  "pathClear obj path = clearPath obj (hd (splitDot path)) (tl (splitDot path))"

fun pairwiseDiverge :: "string list list \<Rightarrow> bool" where
  "pairwiseDiverge [] = True"
| "pairwiseDiverge (p # ps) = (list_all (diverge p) ps \<and> pairwiseDiverge ps)"





definition targetFields :: "CarMappingConfig \<Rightarrow> string list" where
  "targetFields mapping = map fst (concat (map snd (fieldMappings mapping)))"

text \<open>
  A mapping whose target paths diverge pairwise, and a setup in which each of them is
  clear: no write of the mapping can then raise or undo another.
\<close>

definition targetsOk :: "CarMappingConfig \<Rightarrow> bool" where
  "targetsOk mapping = pairwiseDiverge (map splitDot (targetFields mapping))"

definition targetsClear :: "jsval \<Rightarrow> CarMappingConfig \<Rightarrow> bool" where
  "targetsClear setup mapping = list_all (pathClear setup) (targetFields mapping)"









section \<open>Example inputs\<close>

definition exampleHeader :: "string \<Rightarrow> SetupHeader" where
  "exampleHeader car =
     \<lparr>version = JStr ''1.0'', carIdentifier = JStr car, trackIdentifier = JStr ''spa'',
      name = JStr ''Race'', timestamp = JStr ''2024-05-01T10:00:00.000Z''\<rparr>"

definition gearHoleSetup :: SetupFile where
  "gearHoleSetup =
     \<lparr>header = exampleHeader ''unknown_car'',
      sections = [(''GEARS'', JObj [(''GEAR_1'', JStr ''3.5''), (''GEAR_2'', JStr ''2''),
                                    (''GEAR_4'', JStr ''1.5'')])]\<rparr>"

definition falsyAliasSetup :: SetupFile where
  "falsyAliasSetup =
     \<lparr>header = exampleHeader ''unknown_car'',
      sections = [(''TIRE'', JObj [(''LEFT_FRONT'', JNum (Fin 0)), (''PRESSURE_LF'', JNum (Fin 200))]),
                  (''BRAKE'', JObj [(''BIAS'', JNum (Fin 0))])]\<rparr>"


definition strayKeyTable :: "(string \<times> jsval) list" where
  "strayKeyTable =
     [(''CAR'', JStr ''ferrari_488_gt3''),
      (''STRAY_KEY'', JStr ''1''),
      (''TIRE'', JObj [(''PRESSURE_LF'', JStr ''172'')])]"



definition registeredTransformations :: "(string \<times> transformation) list" where
  "registeredTransformations =
     concat (map (\<lambda>mapping. case valueTransformations mapping of None \<Rightarrow> [] | Some ts \<Rightarrow> ts)
               [ferrari488GT3Mapping, porsche911GT3RMapping])"


section \<open>Rounding to binary64\<close>

text \<open>
  \<open>ilog2\<close> is the binary exponent of its argument, a value with at most 53 significant
  bits in the exponent range rounds to itself, and a value from \<open>2 ^ 1024\<close> on rounds to
  infinity.
\<close>

lemma bitlen_lower: "0 < a \<Longrightarrow> power_int (2::rat) (bitlen a - 1) \<le> of_int a"
proof -
  assume a: "0 < a"
  then have b1: "1 \<le> bitlen a"
    by (simp add: bitlen_alt_def)
  have "(2::int) ^ nat (bitlen a - 1) \<le> a"
    using bitlen_bounds [OF a] by simp
  then have "(of_int ((2::int) ^ nat (bitlen a - 1)) :: rat) \<le> of_int a"
    by (simp only: of_int_le_iff)
  then show ?thesis
    using b1 by (simp add: power_int_def)
qed

lemma bitlen_upper: "0 < a \<Longrightarrow> (of_int a :: rat) < power_int 2 (bitlen a)"
proof -
  assume a: "0 < a"
  have b0: "0 \<le> bitlen a"
    by (rule bitlen_nonneg)
  have "a < (2::int) ^ nat (bitlen a)"
    using bitlen_bounds [OF a] by simp
  then have "(of_int a :: rat) < of_int ((2::int) ^ nat (bitlen a))"
    by (simp only: of_int_less_iff)
  then show ?thesis
    using b0 by (simp add: power_int_def)
qed

lemma ilog2_bounds:
  assumes "q \<noteq> 0"
  shows "power_int 2 (ilog2 q) \<le> \<bar>q\<bar> \<and> \<bar>q\<bar> < power_int 2 (ilog2 q + 1)"
proof -
  obtain a b where ab: "quotient_of \<bar>q\<bar> = (a, b)"
    by (cases "quotient_of \<bar>q\<bar>")
  have b: "0 < b"
    using ab by (rule quotient_of_denom_pos)
  have q: "\<bar>q\<bar> = of_int a / of_int b"
    using ab by (rule quotient_of_div)
  have qpos: "0 < \<bar>q\<bar>"
    using assms by simp
  have a: "0 < a"
  proof (rule ccontr)
    assume "\<not> 0 < a"
    then have "of_int a / of_int b \<le> (0::rat)"
      using b by (simp add: divide_le_0_iff)
    then show False
      using q qpos by simp
  qed
  let ?k = "bitlen a - bitlen b"
  have lo: "power_int 2 (?k - 1) \<le> \<bar>q\<bar>"
  proof -
    have "power_int (2::rat) (?k - 1) = power_int 2 (bitlen a - 1) / power_int 2 (bitlen b)"
      by (simp add: power_int_diff)
    also have "\<dots> \<le> of_int a / power_int 2 (bitlen b)"
      using bitlen_lower [OF a] by (simp add: divide_right_mono)
    also have "\<dots> \<le> of_int a / of_int b"
      using bitlen_upper [OF b] a b by (simp add: frac_le)
    finally show ?thesis
      using q by simp
  qed
  have hi: "\<bar>q\<bar> < power_int 2 (?k + 1)"
  proof -
    have "of_int a / of_int b < power_int (2::rat) (bitlen a) / of_int b"
      using bitlen_upper [OF a] b by (simp add: divide_strict_right_mono)
    also have "\<dots> \<le> power_int 2 (bitlen a) / power_int 2 (bitlen b - 1)"
      using bitlen_lower [OF b] b by (simp add: frac_le)
    also have "\<dots> = power_int 2 (?k + 1)"
      by (simp add: power_int_diff power_int_add)
    finally show ?thesis
      using q by simp
  qed
  show ?thesis
  proof (cases "power_int 2 ?k \<le> \<bar>q\<bar>")
    case True
    then have "ilog2 q = ?k"
      by (simp add: ilog2_def ab)
    then show ?thesis
      using True hi by simp
  next
    case False
    then have "ilog2 q = ?k - 1"
      by (simp add: ilog2_def ab)
    then show ?thesis
      using False lo by simp
  qed
qed


lemma roundHalfEven_of_int: "roundHalfEven (of_int z) = z"
  by (simp add: roundHalfEven_def)

lemma roundHalfEven_ge_floor: "\<lfloor>t\<rfloor> \<le> roundHalfEven t"
  by (simp add: roundHalfEven_def Let_def)

lemma power_int_2_less_cancel: "power_int (2::rat) a < power_int 2 b \<Longrightarrow> a < b"
proof (rule ccontr)
  assume lt: "power_int (2::rat) a < power_int 2 b" and "\<not> a < b"
  then have "b \<le> a" by simp
  then have "power_int (2::rat) b \<le> power_int 2 a"
    by (rule power_int_increasing) simp
  with lt show False by simp
qed

lemma round64_representable:
  assumes m: "\<bar>m\<bar> < 2 ^ 53" and e: "- 1074 \<le> e"
    and fin: "\<bar>of_int m * power_int 2 e\<bar> < (2::rat) ^ 1024"
  shows "round64 (of_int m * power_int 2 e) = Fin (of_int m * power_int 2 e)"
proof (cases "m = 0")
  case True
  then show ?thesis by (simp add: round64_def)
next
  case False
  define q where "q = of_int m * power_int (2::rat) e"
  have q0: "q \<noteq> 0"
    using False by (simp add: q_def)
  define u where "u = max (ilog2 q) (- 1022) - 52"
  have "power_int 2 (ilog2 q) \<le> \<bar>q\<bar>"
    using ilog2_bounds [OF q0] by simp
  also have "\<bar>q\<bar> = of_int \<bar>m\<bar> * power_int 2 e"
    by (simp add: q_def abs_mult)
  also have "\<dots> < of_int (2 ^ 53) * power_int 2 e"
  proof (rule mult_strict_right_mono)
    show "rat_of_int \<bar>m\<bar> < rat_of_int (2 ^ 53)"
      using m by (simp only: of_int_less_iff)
    show "0 < power_int (2::rat) e"
      by simp
  qed
  also have "\<dots> = power_int 2 (53 + e)"
    by (simp add: power_int_add)
  finally have "ilog2 q < 53 + e"
    by (rule power_int_2_less_cancel)
  then have ue: "u \<le> e"
    using e by (simp add: u_def)
  define d where "d = nat (e - u)"
  have "e = int d + u"
    using ue by (simp add: d_def)
  then have "power_int (2::rat) e = power_int 2 (int d + u)"
    by simp
  then have split: "power_int (2::rat) e = 2 ^ d * power_int 2 u"
    by (simp add: power_int_add)
  have quot: "q / power_int 2 u = of_int (m * 2 ^ d)"
    by (simp add: q_def split)
  have r: "of_int (roundHalfEven (q / power_int 2 u)) * power_int 2 u = q"
    unfolding quot roundHalfEven_of_int by (simp add: q_def split)
  have lt: "\<not> 2 ^ 1024 \<le> q" and gt: "\<not> q \<le> - (2 ^ 1024)"
    using fin unfolding q_def [symmetric]
    by (simp_all only: abs_less_iff not_le minus_less_iff [of q])
  have "round64 q = Fin q"
    unfolding round64_def Let_def u_def [symmetric] r by (simp only: q0 lt gt if_False)
  then show ?thesis
    by (simp only: q_def)
qed

lemma round64_of_int: "\<bar>n\<bar> < 2 ^ 53 \<Longrightarrow> round64 (of_int n) = Fin (of_int n)"
proof -
  assume n: "\<bar>n\<bar> < 2 ^ 53"
  have "\<bar>of_int n :: rat\<bar> = of_int \<bar>n\<bar>"
    by simp
  also have "\<dots> < of_int (2 ^ 53)"
    using n by (simp only: of_int_less_iff)
  also have "\<dots> = (2::rat) ^ 53"
    by simp
  also have "\<dots> \<le> (2::rat) ^ 1024"
    by (rule power_increasing) simp_all
  finally have "\<bar>of_int n * power_int 2 0\<bar> < (2::rat) ^ 1024"
    by (simp only: power_int_0_right mult_1_right)
  from round64_representable [OF n _ this] show ?thesis
    by simp
qed

lemma round64_overflow:
  assumes "2 ^ 1024 \<le> q"
  shows "round64 q = PosInf"
proof -
  have H: "(2::rat) ^ 1024 = power_int 2 1024"
    by (simp only: power_int_numeral)
  have Hpos: "(0::rat) < 2 ^ 1024"
    by (rule zero_less_power) simp
  have qpos: "0 < q"
    using Hpos assms by (rule less_le_trans)
  then have q0: "q \<noteq> 0" and qabs: "\<bar>q\<bar> = q"
    by simp_all
  let ?L = "ilog2 q"
  have "power_int (2::rat) 1024 \<le> q"
    using assms by (simp only: H)
  also have "q < power_int 2 (?L + 1)"
    using ilog2_bounds [OF q0] by (simp only: qabs)
  finally have "1024 < ?L + 1"
    by (rule power_int_2_less_cancel)
  then have L: "1024 \<le> ?L"
    by simp
  then have E: "max ?L (- 1022) = ?L"
    by simp
  let ?ulp = "power_int (2::rat) (?L - 52)"
  have ulp: "0 < ?ulp"
    by simp
  have "power_int (2::rat) ?L \<le> q"
    using ilog2_bounds [OF q0] by (simp only: qabs)
  then have "power_int (2::rat) ?L / ?ulp \<le> q / ?ulp"
    using ulp by (simp add: divide_right_mono)
  moreover have "power_int (2::rat) ?L / ?ulp = of_int (2 ^ 52)"
    by (simp add: power_int_diff)
  ultimately have "of_int (2 ^ 52) \<le> q / ?ulp"
    by simp
  then have "2 ^ 52 \<le> \<lfloor>q / ?ulp\<rfloor>"
    by (simp only: le_floor_iff)
  then have "2 ^ 52 \<le> roundHalfEven (q / ?ulp)"
    using roundHalfEven_ge_floor [of "q / ?ulp"] by linarith
  then have "(of_int (2 ^ 52) :: rat) \<le> of_int (roundHalfEven (q / ?ulp))"
    by (simp only: of_int_le_iff)
  then have ge: "of_int (2 ^ 52) * ?ulp \<le> of_int (roundHalfEven (q / ?ulp)) * ?ulp"
    using ulp by (simp only: mult_le_cancel_right_pos)
  have "(2::rat) ^ 1024 = power_int 2 1024"
    by (rule H)
  also have "\<dots> \<le> power_int 2 ?L"
    using L by (intro power_int_increasing) simp_all
  also have "\<dots> = of_int (2 ^ 52) * ?ulp"
    by (simp add: power_int_diff)
  also note ge
  finally have "2 ^ 1024 \<le> of_int (roundHalfEven (q / ?ulp)) * ?ulp" .
  then show ?thesis
    unfolding round64_def Let_def E by (simp only: q0 if_False if_True)
qed

lemma pow_1024_le: "(2::rat) ^ 1024 \<le> 2 ^ 1023 * 1000"
proof -
  have "(2::rat) ^ 1024 = 2 ^ 1023 * 2"
    using power_add [of "2::rat" 1023 1] by simp
  also have "\<dots> \<le> 2 ^ 1023 * 1000"
    by (rule mult_left_mono) simp_all
  finally show ?thesis .
qed

lemma round64_2_1023: "round64 (2 ^ 1023) = Fin (2 ^ 1023)"
proof -
  have e: "of_int 1 * power_int (2::rat) 1023 = 2 ^ 1023"
    by (simp only: of_int_1 mult_1 power_int_numeral)
  have "\<bar>(2::rat) ^ 1023\<bar> = 2 ^ 1023"
    by (rule abs_of_nonneg) (rule zero_le_power, simp)
  also have "\<dots> < 2 ^ 1024"
    by (rule power_strict_increasing) simp_all
  finally have fin: "\<bar>of_int 1 * power_int (2::rat) 1023\<bar> < 2 ^ 1024"
    by (simp only: e)
  have m: "\<bar>1 :: int\<bar> < 2 ^ 53" and x: "(- 1074 :: int) \<le> 1023"
    by simp_all
  from round64_representable [OF m x fin] show ?thesis
    by (simp only: e)
qed

text \<open>A multiplication by 1000 that rounds, followed by the division by 1000.\<close>

lemma rescale_rounds:
  "js_div (js_mul (Fin (84135407905797 / 2 ^ 40)) (Fin 1000)) (Fin 1000)
   = Fin (5384666105971007 / 2 ^ 46)"
  by code_simp

lemma round64_sample: "round64 (84135407905797 / 2 ^ 40) = Fin (84135407905797 / 2 ^ 40)"
  using round64_representable [of 84135407905797 "- 40"] by (simp add: power_int_minus field_simps)

section \<open>Writing and reading by path\<close>

lemma lookupProp_update:
  "lookupProp (AList.update k v kvs) k' = (if k' = k then v else lookupProp kvs k')"
  by (simp add: lookupProp_def update_conv')

lemma lookupProp_Nil [simp]: "lookupProp [] k = JUndefined"
  by (simp add: lookupProp_def)

lemma lookupProp_Cons:
  "lookupProp ((k, v) # kvs) k' = (if k' = k then v else lookupProp kvs k')"
  by (simp add: lookupProp_def)





lemma getPath_undefined [simp]: "getPath JUndefined ps = JUndefined"
  by (cases ps) simp_all









lemma diverge_nonempty: "diverge p q \<Longrightarrow> p \<noteq> [] \<and> q \<noteq> []"
  by (cases p; cases q) simp_all

lemma foldE_append: "foldE f (xs @ ys) s = bindE (foldE f xs s) (foldE f ys)"
  by (induction xs arbitrary: s) (auto simp: bindE_def split: sum.splits)

lemma bindE_Inr [simp]: "bindE (Inr x) f = f x"
  by (simp add: bindE_def)

lemma bindE_Inl [simp]: "bindE (Inl e) f = Inl e"
  by (simp add: bindE_def)











section \<open>The reverse mapping in closed form\<close>

lemma lookupProp_JObj: "lookupProp kvs k = JObj sec \<Longrightarrow> map_of kvs k = Some (JObj sec)"
  by (auto simp: lookupProp_def split: option.splits)






section \<open>The car mapping in closed form\<close>






lemma porsche_targetsOk: "targetsOk porsche911GT3RMapping"
  by (simp add: targetsOk_def targetFields_def porsche911GT3RMapping_def)


lemma porsche_targetsClear: "targetsClear (initialSetup now rawSetup) porsche911GT3RMapping"
  by (simp add: targetsClear_def targetFields_def porsche911GT3RMapping_def pathClear_def
      initialSetup_def lookupProp_def)

section \<open>The generic mapping in closed form\<close>

lemma additional_loop:
  "lookupProp kvs ''additionalSettings'' = JObj a \<Longrightarrow>
   foldE assign (map (\<lambda>(n, s). ([''additionalSettings'', n], s)) xs) (JObj kvs)
   = Inr (JObj (AList.update ''additionalSettings''
                  (JObj (fold (\<lambda>(n, s). AList.update n s) xs a)) kvs))"
proof (induction xs arbitrary: kvs a)
  case Nil
  then show ?case
    by (simp add: update_triv lookupProp_JObj)
next
  case (Cons x xs)
  obtain n s where x: "x = (n, s)" by (cases x)
  have step: "assign ([''additionalSettings'', n], s) (JObj kvs)
      = Inr (JObj (AList.update ''additionalSettings'' (JObj (AList.update n s a)) kvs))"
    using Cons.prems by (simp add: assign_def getProp_def nullish_def)
  have look: "lookupProp (AList.update ''additionalSettings'' (JObj (AList.update n s a)) kvs)
      ''additionalSettings'' = JObj (AList.update n s a)"
    by (simp add: lookupProp_update)
  show ?case
    using Cons.IH [OF look] by (simp add: x step)
qed

lemma generic_decode:
  "\<exists>kvs. applyGenericMapping (initialSetup now rawSetup) rawSetup = Inr (JObj kvs)
    \<and> lookupProp kvs ''tirePressures''
        = JObj [(''frontLeft'', alias2 (sectionOrEmpty rawSetup ''TIRE'') ''LEFT_FRONT'' ''PRESSURE_LF''),
                (''frontRight'', alias2 (sectionOrEmpty rawSetup ''TIRE'') ''RIGHT_FRONT'' ''PRESSURE_RF''),
                (''rearLeft'', alias2 (sectionOrEmpty rawSetup ''TIRE'') ''LEFT_REAR'' ''PRESSURE_LR''),
                (''rearRight'', alias2 (sectionOrEmpty rawSetup ''TIRE'') ''RIGHT_REAR'' ''PRESSURE_RR'')]
    \<and> lookupProp kvs ''suspension''
        = JObj [(''front'',
                 JObj [(''springRate'', alias2 (sectionOrEmpty rawSetup ''SUSPENSION'') ''SPRING_RATE_LF'' ''FRONT_SPRING_RATE''),
                       (''rideHeight'', alias2 (sectionOrEmpty rawSetup ''SUSPENSION'') ''RIDE_HEIGHT_LF'' ''FRONT_RIDE_HEIGHT''),
                       (''camber'', alias2 (sectionOrEmpty rawSetup ''SUSPENSION'') ''CAMBER_LF'' ''FRONT_CAMBER''),
                       (''toe'', alias2 (sectionOrEmpty rawSetup ''SUSPENSION'') ''TOE_IN_LF'' ''FRONT_TOE''),
                       (''antiRollBar'', alias2 (sectionOrEmpty rawSetup ''SUSPENSION'') ''FRONT_ANTI_ROLL_BAR'' ''ARB_FRONT'')]),
                (''rear'',
                 JObj [(''springRate'', alias2 (sectionOrEmpty rawSetup ''SUSPENSION'') ''SPRING_RATE_LR'' ''REAR_SPRING_RATE''),
                       (''rideHeight'', alias2 (sectionOrEmpty rawSetup ''SUSPENSION'') ''RIDE_HEIGHT_LR'' ''REAR_RIDE_HEIGHT''),
                       (''camber'', alias2 (sectionOrEmpty rawSetup ''SUSPENSION'') ''CAMBER_LR'' ''REAR_CAMBER''),
                       (''toe'', alias2 (sectionOrEmpty rawSetup ''SUSPENSION'') ''TOE_IN_LR'' ''REAR_TOE''),
                       (''antiRollBar'', alias2 (sectionOrEmpty rawSetup ''SUSPENSION'') ''REAR_ANTI_ROLL_BAR'' ''ARB_REAR'')])]
    \<and> lookupProp kvs ''dampers''
        = (let damperSection = js_or (lookupProp (sections rawSetup) ''DAMPER'') (sectionOrEmpty rawSetup ''SUSPENSION'')
           in JObj [(''front'', JObj [(''bump'', alias2 damperSection ''BUMP_LF'' ''FRONT_BUMP''),
                                      (''rebound'', alias2 damperSection ''REBOUND_LF'' ''FRONT_REBOUND'')]),
                    (''rear'', JObj [(''bump'', alias2 damperSection ''BUMP_LR'' ''REAR_BUMP''),
                                     (''rebound'', alias2 damperSection ''REBOUND_LR'' ''REAR_REBOUND'')])])
    \<and> lookupProp kvs ''aero''
        = JObj [(''frontWing'', alias2 (sectionOrEmpty rawSetup ''AERO'') ''FRONT_WING'' ''WING_FRONT''),
                (''rearWing'', alias2 (sectionOrEmpty rawSetup ''AERO'') ''REAR_WING'' ''WING_REAR'')]
    \<and> lookupProp kvs ''brakeBias''
        = alias2d (sectionOrEmpty rawSetup ''BRAKE'') ''BIAS'' ''BRAKE_BIAS'' (JNum (Fin 50))
    \<and> lookupProp kvs ''differential''
        = (if 0 < keyCount (sectionOrEmpty rawSetup ''DIFFERENTIAL'')
           then JObj [(''preload'', alias2d (sectionOrEmpty rawSetup ''DIFFERENTIAL'') ''PRELOAD'' ''DIFF_PRELOAD'' (JNum (Fin 0))),
                      (''powerRamp'', alias2d (sectionOrEmpty rawSetup ''DIFFERENTIAL'') ''POWER_RAMP'' ''DIFF_POWER'' (JNum (Fin 0))),
                      (''coastRamp'', alias2d (sectionOrEmpty rawSetup ''DIFFERENTIAL'') ''COAST_RAMP'' ''DIFF_COAST'' (JNum (Fin 0)))]
           else JUndefined)
    \<and> lookupProp kvs ''gearRatios''
        = (if gearRatiosOf (sectionOrEmpty rawSetup ''GEARS'') = [] then JUndefined
           else JArr (gearRatiosOf (sectionOrEmpty rawSetup ''GEARS'')))
    \<and> lookupProp kvs ''additionalSettings''
        = JObj (fold (\<lambda>(n, s). AList.update n s)
             (filter (\<lambda>(sectionName, section). sectionName \<notin> set knownSections) (sections rawSetup)) [])"
  unfolding applyGenericMapping_def genericAssignments_def Let_def foldE_append
  by (simp add: initialSetup_def assign_def getProp_def nullish_def lookupProp_update
      additional_loop [where a = "[]"] lookupProp_def)

section \<open>Evaluating the examples\<close>

lemma getCarMapping_newSetupParser_ferrari:
  "getCarMapping createDefaultParser (JStr ''ferrari_488_gt3'') = Some ferrari488GT3Mapping"
  by (simp add: createDefaultParser_def newSetupParser_def getCarMapping_def
      ferrari488GT3Mapping_def porsche911GT3RMapping_def)

lemma getCarMapping_newSetupParser_porsche:
  "getCarMapping createDefaultParser (JStr ''porsche_911_gt3r'') = Some porsche911GT3RMapping"
  by (simp add: createDefaultParser_def newSetupParser_def getCarMapping_def
      ferrari488GT3Mapping_def porsche911GT3RMapping_def)

lemmas scan_defs = parseFloatStr_def scanDecimal_def scanMagnitude_def scanUnsigned_def
  scanExponent_def isDigit_def isSpace_def digitsVal_def digitVal_def NumberStr_def trim_def
  scanRadix_def radixOf_def isRadixDigit_def Let_def

lemma round64_numeral: "numeral w < (2::int) ^ 53 \<Longrightarrow> round64 (numeral w) = Fin (numeral w)"
  using round64_of_int [of "numeral w"] by simp

lemma round64_7_2: "round64 (7 / 2) = Fin (7 / 2)"
  using round64_representable [of 7 "- 1"] by simp

lemma round64_3_2: "round64 (3 / 2) = Fin (3 / 2)"
  using round64_representable [of 3 "- 1"] by simp

lemma unknown_car_unregistered:
  "getCarMapping createDefaultParser (JStr ''unknown_car'') = None"
  by (simp add: createDefaultParser_def newSetupParser_def getCarMapping_def
      ferrari488GT3Mapping_def porsche911GT3RMapping_def)

lemma concat_map_if:
  "concat (map (\<lambda>i. if P i then [f i] else []) xs) = map f (filter P xs)"
  by (induction xs) simp_all

lemma convertToStructured_generic:
  "getCarMapping this (carIdentifier (header rawSetup)) = None \<Longrightarrow>
   convertToStructured this now rawSetup = applyGenericMapping (initialSetup now rawSetup) rawSetup"
  by (simp add: convertToStructured_def)

lemma gearKeys:
  "gearKey 1 = ''GEAR_1''" "gearKey 2 = ''GEAR_2''" "gearKey 3 = ''GEAR_3''" "gearKey 4 = ''GEAR_4''"
  "gearKey 5 = ''GEAR_5''" "gearKey 6 = ''GEAR_6''" "gearKey 7 = ''GEAR_7''" "gearKey 8 = ''GEAR_8''"
  "gearKey (Suc 0) = ''GEAR_1''"
  by code_simp+

lemma upt_1_9: "[1 ..< 9] = [1, 2, 3, 4, 5, 6, 7, 8 :: nat]"
  by (simp add: upt_rec)


lemma gearHole_ratios:
  "gearRatiosOf (sectionOrEmpty gearHoleSetup ''GEARS'')
   = [JNum (Fin (7 / 2)), JNum (Fin 2), JNum (Fin (3 / 2))]"
  unfolding gearRatiosOf_def upt_1_9
  by (simp add: gearKeys gearHoleSetup_def sectionOrEmpty_def js_or_def lookupProp_def
      scan_defs round64_numeral round64_7_2 round64_3_2 isNaN_def)

section \<open>What a mapped entry stores and emits\<close>










section \<open>The Ferrari dialect on an example\<close>











section \<open>What decode reads\<close>










section \<open>The required fields\<close>






section \<open>The dialect registry\<close>

text \<open>
  Claim C2, as the code has it: registering a car mapping never fails. It stores the
  mapping under its car identifier, replacing a mapping already registered under that
  identifier, and leaves every other entry as it was; the transformation table is not
  looked at.
\<close>

theorem registerCarMapping_replaces:
  "\<exists>this'. registerCarMapping this mapping = Inr this'
     \<and> getCarMapping this' (JStr k)
         = (if k = carId mapping then Some mapping else getCarMapping this (JStr k))"
  by (simp add: registerCarMapping_def getCarMapping_def)

text \<open>
  The claim as stated fails: the default parser already holds a mapping for
  \<open>ferrari_488_gt3\<close>; registering another one under that identifier, whose transformation
  table names a field path that no field mapping has, succeeds and replaces the first.
\<close>

theorem registerCarMapping_duplicate_counterexample:
  "map_sum id (\<lambda>this'. map_option carName (getCarMapping this' (JStr ''ferrari_488_gt3'')))
     (registerCarMapping createDefaultParser
        (ferrari488GT3Mapping\<lparr>carName := ''Replacement'',
           valueTransformations := Some [(''no.such.field'', signFlip)]\<rparr>))
   = Inr (Some ''Replacement'')
   \<and> map_option carName (getCarMapping createDefaultParser (JStr ''ferrari_488_gt3''))
     = Some ''Ferrari 488 GT3''"
  by (simp add: registerCarMapping_def getCarMapping_def getCarMapping_newSetupParser_ferrari
      [unfolded getCarMapping_def, simplified] ferrari488GT3Mapping_def)

section \<open>Gear ratios in the generic fallback\<close>

text \<open>
  Claim C1, as the code has it: the generic fallback collects the gear ratio of every key
  \<open>GEAR_n\<close>, \<open>n\<close> from 1 to 8, that the \<open>GEARS\<close> section holds, in the order of \<open>n\<close>; a
  missing index is skipped and does not end the collection. The field is absent when no
  such key is present.
\<close>

theorem gearRatios_collects_every_present_gear:
  assumes "getCarMapping this (carIdentifier (header rawSetup)) = None"
  shows "\<exists>setup. convertToStructured this now rawSetup = Inr setup
     \<and> field setup ''gearRatios''
       = (let gearSection = sectionOrEmpty rawSetup ''GEARS'';
              present = filter (\<lambda>i. field gearSection (gearKey i) \<noteq> JUndefined) [1 ..< 9]
          in if present = [] then JUndefined
             else JArr (map (\<lambda>i. JNum (parseNumber (field gearSection (gearKey i)))) present))"
proof -
  from generic_decode [of now rawSetup] obtain kvs where
    r: "applyGenericMapping (initialSetup now rawSetup) rawSetup = Inr (JObj kvs)"
    and g: "lookupProp kvs ''gearRatios''
        = (if gearRatiosOf (sectionOrEmpty rawSetup ''GEARS'') = [] then JUndefined
           else JArr (gearRatiosOf (sectionOrEmpty rawSetup ''GEARS'')))"
    by blast
  show ?thesis
    using r g by (simp add: convertToStructured_generic [OF assms] gearRatiosOf_def concat_map_if Let_def)
qed

theorem gearRatios_collects_every_present_gear_witness:
  "getCarMapping createDefaultParser (carIdentifier (header gearHoleSetup)) = None
   \<and> (\<exists>setup. convertToStructured createDefaultParser ''now'' gearHoleSetup = Inr setup
        \<and> field setup ''gearRatios'' = JArr [JNum (Fin (7 / 2)), JNum (Fin 2), JNum (Fin (3 / 2))])"
proof -
  have none: "getCarMapping createDefaultParser (carIdentifier (header gearHoleSetup)) = None"
    by (simp add: gearHoleSetup_def exampleHeader_def unknown_car_unregistered)
  show ?thesis
    using none gearRatios_collects_every_present_gear [OF none, of "''now''", unfolded upt_1_9]
    by (simp add: gearKeys gearHoleSetup_def sectionOrEmpty_def js_or_def lookupProp_def
        scan_defs round64_numeral round64_7_2 round64_3_2 isNaN_def)
qed

text \<open>
  The claim as stated fails: with \<open>GEAR_1\<close>, \<open>GEAR_2\<close> and \<open>GEAR_4\<close> the sequence has
  three elements, the value of \<open>GEAR_4\<close> last.
\<close>

theorem gear_hole_counterexample:
  "map_sum id (\<lambda>setup. field setup ''gearRatios'')
     (convertToStructured createDefaultParser ''now'' gearHoleSetup)
   = Inr (JArr [JNum (Fin (7 / 2)), JNum (Fin 2), JNum (Fin (3 / 2))])"
proof -
  have none: "getCarMapping createDefaultParser (carIdentifier (header gearHoleSetup)) = None"
    by (simp add: gearHoleSetup_def exampleHeader_def unknown_car_unregistered)
  from generic_decode [of "''now''" gearHoleSetup] obtain kvs where
    "applyGenericMapping (initialSetup ''now'' gearHoleSetup) gearHoleSetup = Inr (JObj kvs)"
    and "lookupProp kvs ''gearRatios''
        = (if gearRatiosOf (sectionOrEmpty gearHoleSetup ''GEARS'') = [] then JUndefined
           else JArr (gearRatiosOf (sectionOrEmpty gearHoleSetup ''GEARS'')))"
    by blast
  then show ?thesis
    by (simp add: convertToStructured_generic [OF none] gearHole_ratios)
qed

section \<open>The default coercion of the car mapping\<close>




section \<open>The value transformations\<close>

text \<open>
  Claim C4, as the code has it: the sign flip, the transformation of the camber fields in
  both dialects, returns exactly the number it was given, for every finite number. The
  rescaling by 1000, the transformation of the Porsche spring rates, multiplies and
  divides in binary64: it returns the binary64 number it was given whenever the product
  with 1000 is a binary64 number too, so that the multiplication neither rounds nor
  overflows; every integer of at most 9007199254740 in magnitude is such a number. These
  two are all the transformations registered.
\<close>

theorem transform_round_trip:
  "toRaw signFlip (fromRaw signFlip (JNum (Fin x))) = JNum (Fin x)
   \<and> (round64 y = Fin y \<and> round64 (y * 1000) = Fin (y * 1000) \<longrightarrow>
        toRaw rescale1000 (fromRaw rescale1000 (JNum (Fin y))) = JNum (Fin y))
   \<and> (\<bar>n\<bar> \<le> 9007199254740 \<longrightarrow>
        toRaw rescale1000 (fromRaw rescale1000 (JNum (Fin (of_int n)))) = JNum (Fin (of_int n)))
   \<and> list_all (\<lambda>(path, t). t = signFlip \<or> t = rescale1000) registeredTransformations"
proof (intro conjI impI)
  show "toRaw signFlip (fromRaw signFlip (JNum (Fin x))) = JNum (Fin x)"
    by (simp add: signFlip_def negParseFloat_def negate_def)
next
  assume y: "round64 y = Fin y \<and> round64 (y * 1000) = Fin (y * 1000)"
  then have m: "js_mul (Fin y) (Fin 1000) = Fin (y * 1000)"
    by simp
  have d: "js_div (Fin (y * 1000)) (Fin 1000) = Fin y"
    using y by simp
  show "toRaw rescale1000 (fromRaw rescale1000 (JNum (Fin y))) = JNum (Fin y)"
    by (simp only: rescale1000_def parseFloatTimes1000_def dividedBy1000_def
        transformation.simps parseFloat.simps toNumber.simps m d)
next
  assume n: "\<bar>n\<bar> \<le> 9007199254740"
  then have a: "\<bar>n * 1000\<bar> < 2 ^ 53" and b: "\<bar>n\<bar> < 2 ^ 53"
    by simp_all
  have "js_mul (Fin (of_int n)) (Fin 1000) = round64 (of_int (n * 1000))"
    by simp
  also have "\<dots> = Fin (of_int (n * 1000))"
    using a by (rule round64_of_int)
  finally have m: "js_mul (Fin (of_int n)) (Fin 1000) = Fin (of_int (n * 1000))" .
  have "js_div (Fin (of_int (n * 1000))) (Fin 1000) = round64 (of_int n)"
    by simp
  also have "\<dots> = Fin (of_int n)"
    using b by (rule round64_of_int)
  finally have d: "js_div (Fin (of_int (n * 1000))) (Fin 1000) = Fin (of_int n)" .
  show "toRaw rescale1000 (fromRaw rescale1000 (JNum (Fin (of_int n)))) = JNum (Fin (of_int n))"
    by (simp only: rescale1000_def parseFloatTimes1000_def dividedBy1000_def
        transformation.simps parseFloat.simps toNumber.simps m d)
next
  show "list_all (\<lambda>(path, t). t = signFlip \<or> t = rescale1000) registeredTransformations"
    by (simp add: registeredTransformations_def ferrari488GT3Mapping_def porsche911GT3RMapping_def)
qed

theorem transform_round_trip_witness:
  "\<bar>45 :: int\<bar> \<le> 9007199254740
   \<and> toRaw rescale1000 (fromRaw rescale1000 (JNum (Fin 45))) = JNum (Fin 45)
   \<and> round64 (7 / 2) = Fin (7 / 2) \<and> round64 (7 / 2 * 1000) = Fin (7 / 2 * 1000)
   \<and> toRaw rescale1000 (fromRaw rescale1000 (JNum (Fin (7 / 2)))) = JNum (Fin (7 / 2))
   \<and> toRaw signFlip (fromRaw signFlip (JNum (Fin (- 7 / 2)))) = JNum (Fin (- 7 / 2))
   \<and> toRaw signFlip (fromRaw signFlip (JNum (Fin 0))) = JNum (Fin 0)
   \<and> toRaw signFlip (fromRaw signFlip (JNum (Fin (2 ^ 1023)))) = JNum (Fin (2 ^ 1023))"
proof -
  have a: "round64 (7 / 2 * 1000) = Fin (7 / 2 * 1000)"
    by (simp add: round64_numeral)
  show ?thesis
    using transform_round_trip [of "- 7 / 2" "7 / 2" 45] transform_round_trip [of 0 "7 / 2" 45]
      transform_round_trip [of "2 ^ 1023" "7 / 2" 45] a round64_7_2
    by simp
qed

text \<open>
  The claim as stated fails for the Porsche spring rate transformation. The binary64
  number \<open>84135407905797 / 2 ^ 40\<close> (76.52070772182651) comes back one unit in the last
  place smaller, because the product with 1000 is rounded; and \<open>2 ^ 1023\<close> comes back as
  infinity, because the product with 1000 overflows.
\<close>

theorem rescale_round_trip_counterexample:
  "toRaw rescale1000 (fromRaw rescale1000 (JNum (Fin (2 ^ 1023)))) = JNum PosInf
   \<and> round64 (2 ^ 1023) = Fin (2 ^ 1023)
   \<and> toRaw rescale1000 (fromRaw rescale1000 (JNum (Fin (84135407905797 / 2 ^ 40))))
     = JNum (Fin (5384666105971007 / 2 ^ 46))
   \<and> round64 (84135407905797 / 2 ^ 40) = Fin (84135407905797 / 2 ^ 40)
   \<and> (84135407905797 / 2 ^ 40 :: rat) \<noteq> 5384666105971007 / 2 ^ 46
   \<and> transformationFor porsche911GT3RMapping ''suspension.front.springRate'' = Some rescale1000"
proof (intro conjI)
  have "js_mul (Fin (2 ^ 1023)) (Fin 1000) = round64 (2 ^ 1023 * 1000)"
    by (simp only: js_mul.simps)
  also have "\<dots> = PosInf"
    using pow_1024_le by (rule round64_overflow)
  finally have m: "js_mul (Fin (2 ^ 1023)) (Fin 1000) = PosInf" .
  have d: "js_div PosInf (Fin 1000) = PosInf"
    by (simp add: js_inf_def)
  show "toRaw rescale1000 (fromRaw rescale1000 (JNum (Fin (2 ^ 1023)))) = JNum PosInf"
    by (simp only: rescale1000_def parseFloatTimes1000_def dividedBy1000_def
        transformation.simps parseFloat.simps toNumber.simps m d)
  show "round64 (2 ^ 1023) = Fin (2 ^ 1023)"
    by (rule round64_2_1023)
  show "toRaw rescale1000 (fromRaw rescale1000 (JNum (Fin (84135407905797 / 2 ^ 40))))
     = JNum (Fin (5384666105971007 / 2 ^ 46))"
    by (simp only: rescale1000_def parseFloatTimes1000_def dividedBy1000_def
        transformation.simps parseFloat.simps toNumber.simps rescale_rounds)
  show "round64 (84135407905797 / 2 ^ 40) = Fin (84135407905797 / 2 ^ 40)"
    by (rule round64_sample)
  show "(84135407905797 / 2 ^ 40 :: rat) \<noteq> 5384666105971007 / 2 ^ 46"
    by simp
  show "transformationFor porsche911GT3RMapping ''suspension.front.springRate'' = Some rescale1000"
    by (simp add: transformationFor_def porsche911GT3RMapping_def)
qed

section \<open>The camber sign flip of the Ferrari dialect\<close>



section \<open>Parsing the text\<close>

text \<open>
  Claim C6, as the code has it: parsing fails exactly when the tokenizer \<open>ini.parse\<close>
  raises, with an error whose message is that of the tokenizer behind the words
  \<open>Failed to parse .sto file: \<close>; the error reaches the caller of \<open>parseString\<close> and no
  setup is produced. When the tokenizer returns a table, parsing succeeds, and the
  sections of the result are the entries of the table that are objects, the four header
  keys apart: an entry outside any section that is not a header key is dropped, not
  rejected.
\<close>

theorem parseIniString_fails_iff_tokenizer_raises:
  "(case ini_parse content of
      Inl message \<Rightarrow>
        parseIniString ini_parse now content
          = Inl (ParseFailure (''Failed to parse .sto file: '' @ message))
        \<and> parseString this ini_parse now content
          = Inl (ParseFailure (''Failed to parse .sto file: '' @ message))
    | Inr parsed \<Rightarrow>
        (\<exists>rawSetup. parseIniString ini_parse now content = Inr rawSetup
           \<and> sections rawSetup
             = filter (\<lambda>(key, v). typeof v = ''object'' \<and> key \<notin> set [''VERSION'', ''CAR'', ''TRACK'', ''TIMESTAMP''])
                 parsed))"
proof (cases "ini_parse content")
  case (Inl message)
  then show ?thesis
    by (simp add: parseString_def parseIniString_def)
next
  case (Inr parsed)
  have "filter (\<lambda>(key, v). typeof v = ''object'')
          (AList.delete ''TIMESTAMP'' (AList.delete ''TRACK''
             (AList.delete ''CAR'' (AList.delete ''VERSION'' parsed))))
        = filter (\<lambda>(key, v). typeof v = ''object'' \<and> key \<notin> set [''VERSION'', ''CAR'', ''TRACK'', ''TIMESTAMP''])
            parsed"
    unfolding AList.delete_eq filter_filter
    by (rule filter_cong [OF refl]) auto
  then show ?thesis
    using Inr by (simp add: parseIniString_def)
qed

text \<open>
  The claim as stated fails where the tokenizer returns a table with an entry outside any
  section that is not a header key: the entry \<open>STRAY_KEY\<close> is dropped and the parse
  succeeds.
\<close>

theorem stray_key_counterexample:
  "parseIniString (\<lambda>content. Inr strayKeyTable) ''now'' ''CAR=ferrari_488_gt3''
   = Inr \<lparr>header = \<lparr>version = JStr ''1.0'', carIdentifier = JStr ''ferrari_488_gt3'',
                     trackIdentifier = JStr [], name = JStr ''Unnamed Setup'',
                     timestamp = JStr ''now''\<rparr>,
          sections = [(''TIRE'', JObj [(''PRESSURE_LF'', JStr ''172'')])]\<rparr>"
  by (simp add: parseIniString_def strayKeyTable_def lookupProp_Cons js_or_def optChain_def
      nullish_def)

section \<open>The required fields of a decoded record\<close>




section \<open>Setting a nested property\<close>


section \<open>Sections the dialect does not name\<close>




section \<open>Alias probing in the generic fallback\<close>

text \<open>
  Claim C10: in the generic fallback, a falsy raw value under the first alias of a field
  counts as a missing key. For the front left tire pressure, when \<open>TIRE.LEFT_FRONT\<close> is
  falsy the field is read from \<open>TIRE.PRESSURE_LF\<close>; for the brake bias, when
  \<open>BRAKE.BIAS\<close> is falsy the field is read from \<open>BRAKE.BRAKE_BIAS\<close>, and is 50 when that
  one is falsy or missing too. The same holds of every pair of aliases.
\<close>

theorem generic_falsy_alias_falls_through:
  assumes "getCarMapping this (carIdentifier (header rawSetup)) = None"
  shows "\<exists>setup. convertToStructured this now rawSetup = Inr setup
     \<and> (\<not> truthy (field (sectionOrEmpty rawSetup ''TIRE'') ''LEFT_FRONT'') \<longrightarrow>
          getNestedProperty setup ''tirePressures.frontLeft''
          = JNum (parseNumber (field (sectionOrEmpty rawSetup ''TIRE'') ''PRESSURE_LF'')))
     \<and> (\<not> truthy (field (sectionOrEmpty rawSetup ''BRAKE'') ''BIAS'') \<longrightarrow>
          getNestedProperty setup ''brakeBias''
          = (if truthy (field (sectionOrEmpty rawSetup ''BRAKE'') ''BRAKE_BIAS'')
             then JNum (parseNumber (field (sectionOrEmpty rawSetup ''BRAKE'') ''BRAKE_BIAS''))
             else JNum (Fin 50)))
     \<and> (\<forall>section a b. \<not> truthy (field section a) \<longrightarrow>
          alias2 section a b = JNum (parseNumber (field section b)))"
proof -
  from generic_decode [of now rawSetup] obtain kvs where
    r: "applyGenericMapping (initialSetup now rawSetup) rawSetup = Inr (JObj kvs)"
    and t: "lookupProp kvs ''tirePressures''
        = JObj [(''frontLeft'', alias2 (sectionOrEmpty rawSetup ''TIRE'') ''LEFT_FRONT'' ''PRESSURE_LF''),
                (''frontRight'', alias2 (sectionOrEmpty rawSetup ''TIRE'') ''RIGHT_FRONT'' ''PRESSURE_RF''),
                (''rearLeft'', alias2 (sectionOrEmpty rawSetup ''TIRE'') ''LEFT_REAR'' ''PRESSURE_LR''),
                (''rearRight'', alias2 (sectionOrEmpty rawSetup ''TIRE'') ''RIGHT_REAR'' ''PRESSURE_RR'')]"
    and b: "lookupProp kvs ''brakeBias''
        = alias2d (sectionOrEmpty rawSetup ''BRAKE'') ''BIAS'' ''BRAKE_BIAS'' (JNum (Fin 50))"
    by blast
  have 1: "getNestedProperty (JObj kvs) ''tirePressures.frontLeft''
      = alias2 (sectionOrEmpty rawSetup ''TIRE'') ''LEFT_FRONT'' ''PRESSURE_LF''"
    by (simp add: getNestedProperty_def t lookupProp_Cons)
  have 2: "getNestedProperty (JObj kvs) ''brakeBias''
      = alias2d (sectionOrEmpty rawSetup ''BRAKE'') ''BIAS'' ''BRAKE_BIAS'' (JNum (Fin 50))"
    by (simp add: getNestedProperty_def b)
  show ?thesis
    using r by (simp add: convertToStructured_generic [OF assms] 1 2 alias2_def alias2d_def js_or_def)
qed

theorem generic_falsy_alias_falls_through_witness:
  "getCarMapping createDefaultParser (carIdentifier (header falsyAliasSetup)) = None
   \<and> \<not> truthy (field (sectionOrEmpty falsyAliasSetup ''TIRE'') ''LEFT_FRONT'')
   \<and> \<not> truthy (field (sectionOrEmpty falsyAliasSetup ''BRAKE'') ''BIAS'')
   \<and> \<not> truthy (field (JObj [(''LEFT_FRONT'', JStr [])]) ''LEFT_FRONT'')
   \<and> (\<exists>setup. convertToStructured createDefaultParser ''now'' falsyAliasSetup = Inr setup
        \<and> getNestedProperty setup ''tirePressures.frontLeft'' = JNum (Fin 200)
        \<and> getNestedProperty setup ''brakeBias'' = JNum (Fin 50)
        \<and> alias2 (JObj [(''LEFT_FRONT'', JStr [])]) ''LEFT_FRONT'' ''PRESSURE_LF'' = JNum (Fin 0))"
proof -
  have none: "getCarMapping createDefaultParser (carIdentifier (header falsyAliasSetup)) = None"
    by (simp add: falsyAliasSetup_def exampleHeader_def unknown_car_unregistered)
  have tire: "sectionOrEmpty falsyAliasSetup ''TIRE''
      = JObj [(''LEFT_FRONT'', JNum (Fin 0)), (''PRESSURE_LF'', JNum (Fin 200))]"
    and brake: "sectionOrEmpty falsyAliasSetup ''BRAKE'' = JObj [(''BIAS'', JNum (Fin 0))]"
    by (simp_all add: falsyAliasSetup_def sectionOrEmpty_def js_or_def lookupProp_def)
  show ?thesis
    using none generic_falsy_alias_falls_through [OF none, of "''now''"]
    by (auto simp: tire brake lookupProp_Cons)
qed

end
